theory Spec2Isabelle
  imports Main "HOL-Library.Word"
begin

section \<open>JavaScript values\<close>

text \<open>
  A JavaScript string is a sequence of UTF-16 code units.  String equality (\<open>===\<close>) is
  equality of the sequences, and \<open>+\<close> is concatenation.  A literal of the source is
  written \<open>js ''...''\<close>.
\<close>

type_synonym jsstring = "16 word list"

definition js :: "string \<Rightarrow> jsstring" where
  "js s = map (\<lambda>c. of_nat (of_char c)) s"

text \<open>
  The values held by form data and by the optional columns of a block rule: every input
  handler of the form stores \<open>e.target.value\<close>, a string; a key that was never set
  reads as \<open>undefined\<close>, and an empty database column as \<open>null\<close>.
\<close>

datatype jsval = JUndefined | JNull | JStr jsstring

text \<open>\<open>truthy v\<close> is the condition \<open>if (v)\<close>, and \<open>falsy v\<close> is \<open>!v\<close>.\<close>

fun truthy :: "jsval \<Rightarrow> bool" where
  "truthy JUndefined = False"
| "truthy JNull = False"
| "truthy (JStr s) = (s \<noteq> [])"

fun falsy :: "jsval \<Rightarrow> bool" where
  "falsy JUndefined = True"
| "falsy JNull = True"
| "falsy (JStr s) = (s = [])"

text \<open>The conversion a template literal applies to an interpolated value.\<close>

fun ToString :: "jsval \<Rightarrow> jsstring" where
  "ToString JUndefined = js ''undefined''"
| "ToString JNull = js ''null''"
| "ToString (JStr s) = s"

datatype js_error = TypeError

text \<open>
  The result of a property read \<open>obj[key]\<close> on an object literal: an own property, a
  member inherited from \<open>Object.prototype\<close> (a function or an object, hence truthy, on
  which any further property read gives \<open>undefined\<close>), or nothing (\<open>undefined\<close>).
\<close>

datatype 'a jsprop = Own 'a | Inherited | Missing

definition Object_prototype_names :: "jsstring list" where
  "Object_prototype_names = map js
     [''constructor'', ''hasOwnProperty'', ''isPrototypeOf'', ''propertyIsEnumerable'',
      ''toLocaleString'', ''toString'', ''valueOf'', ''__proto__'',
      ''__defineGetter__'', ''__defineSetter__'', ''__lookupGetter__'', ''__lookupSetter__'']"

subsection \<open>Numbers as text\<close>

text \<open>Decimal digits of a natural number, most significant first.\<close>

fun digits :: "nat \<Rightarrow> jsstring" where
  "digits n = (if n < 10 then [of_nat (48 + n)]
               else digits (n div 10) @ [of_nat (48 + n mod 10)])"

declare digits.simps [simp del]

text \<open>\<open>String(n)\<close> and \<open>`${n}`\<close> for an integer \<open>n\<close>.\<close>

definition Number_toString :: "int \<Rightarrow> jsstring" where
  "Number_toString n = (if n < 0 then js ''-'' @ digits (nat (- n)) else digits (nat n))"

text \<open>\<open>s.padStart(2, '0')\<close>.\<close>

definition padStart2 :: "jsstring \<Rightarrow> jsstring" where
  "padStart2 s = replicate (2 - length s) (of_nat 48) @ s"

subsection \<open>Dates\<close>

text \<open>
  A \<open>Date\<close> after \<open>setHours(0, 0, 0, 0)\<close>, given by what its getters return in the
  browser's time zone: \<open>getTime\<close> is the epoch time in milliseconds of the local
  midnight, \<open>getDay\<close> the weekday (0 = Sunday .. 6 = Saturday), \<open>getMonth\<close> counts
  from 0.  The time zone itself is not modelled: a date is what the code observes of it.
\<close>

record jsdate =
  getTime :: int
  getDay :: nat
  getFullYear :: int
  getMonth :: nat
  getDate :: nat

text \<open>
  \<open>formatDate\<close> of the schedule grid; \<open>isDateBlocked\<close> builds its \<open>dateStr\<close> with the
  same expression.
\<close>

definition formatDate :: "jsdate \<Rightarrow> jsstring" where
  "formatDate d =
     Number_toString (getFullYear d) @ js ''-'' @
     padStart2 (Number_toString (int (getMonth d) + 1)) @ js ''-'' @
     padStart2 (Number_toString (int (getDate d)))"

text \<open>
  \<open>Math.ceil(a / b)\<close> for integers \<open>a\<close> and \<open>b > 0\<close>.  With \<open>b\<close> the milliseconds of a
  day and \<open>a\<close> a difference of two time values, the floating-point quotient is below
  zero, at most \<open>-1\<close> or above zero exactly when the exact quotient is, so the sign
  tests made on the result are those of the exact ceiling.
\<close>

definition Math_ceil_div :: "int \<Rightarrow> int \<Rightarrow> int" where
  "Math_ceil_div a b = - ((- a) div b)"

section \<open>Scheduling data (types.ts)\<close>

record state_cfg =
  capacity :: nat
  workdays :: "nat list"

definition STATE_CONFIG :: "(jsstring \<times> state_cfg) list" where
  "STATE_CONFIG =
     [(js ''GA'', \<lparr>capacity = 9, workdays = [1, 2, 3, 4, 5, 6]\<rparr>),
      (js ''TN'', \<lparr>capacity = 9, workdays = [1, 2, 3, 4, 5, 6]\<rparr>),
      (js ''AL'', \<lparr>capacity = 2, workdays = [1, 2, 3, 4, 5]\<rparr>),
      (js ''SC'', \<lparr>capacity = 1, workdays = [1, 2, 3, 4, 5]\<rparr>)]"

text \<open>
  The read \<open>STATE_CONFIG[state]\<close>.  \<open>STATE_CONFIG\<close> is an object literal, so a key that
  is not one of its own is looked up in \<open>Object.prototype\<close>.
\<close>

definition STATE_CONFIG_get :: "jsstring \<Rightarrow> state_cfg jsprop" where
  "STATE_CONFIG_get k =
     (case map_of STATE_CONFIG k of
        Some c \<Rightarrow> Own c
      | None \<Rightarrow> if List.member Object_prototype_names k then Inherited else Missing)"

definition OPERATING_HOURS :: "jsstring list" where
  "OPERATING_HOURS = map js
     [''9:00 AM'', ''10:00 AM'', ''11:00 AM'', ''12:00 PM'',
      ''1:00 PM'', ''2:00 PM'', ''3:00 PM'', ''4:00 PM'', ''5:00 PM'']"

record AppointmentRecord =
  appt_id :: jsstring
  createdAt :: int
  formData :: "jsstring \<Rightarrow> jsval"
  clipboardSummary :: jsstring

record BlockRule =
  rule_id :: jsstring
  rule_date :: jsstring
  rule_time :: jsval
  rule_state :: jsval
  rule_reason :: jsval

section \<open>The availability engine (AppointmentMaker.tsx)\<close>

definition HOLIDAY_BLOCKS :: "jsstring list" where
  "HOLIDAY_BLOCKS = [js ''2024-12-25'', js ''2024-01-01'']"

text \<open>
  \<open>bookings.length >= config.capacity\<close>: on a configuration entry the comparison of two
  numbers; on an inherited member \<open>capacity\<close> is \<open>undefined\<close> and \<open>>=\<close> is false.
\<close>

fun length_ge_capacity :: "nat \<Rightarrow> state_cfg jsprop \<Rightarrow> bool" where
  "length_ge_capacity n (Own c) = (capacity c \<le> n)"
| "length_ge_capacity n Inherited = False"
| "length_ge_capacity n Missing = False"

definition isSlotUnavailable ::
  "AppointmentRecord list \<Rightarrow> BlockRule list \<Rightarrow> jsstring \<Rightarrow> jsstring \<Rightarrow> jsstring \<Rightarrow> bool" where
  "isSlotUnavailable appointments blockedRules dateStr time state =
     (if state = [] \<or> STATE_CONFIG_get state = Missing then True
      else
        let config = STATE_CONFIG_get state;
            bookings = filter (\<lambda>a.
              formData a (js ''appointmentDate'') = JStr dateStr \<and>
              formData a (js ''appointmentTime'') = JStr time \<and>
              formData a (js ''state'') = JStr state) appointments
        in if length_ge_capacity (length bookings) config then True
           else
             let isBlocked = list_ex (\<lambda>r.
               rule_date r = dateStr \<and>
               rule_time r = JStr time \<and>
               (falsy (rule_state r) \<or> rule_state r = JStr state)) blockedRules
             in if isBlocked then True else False)"

text \<open>
  The lead-time computation of \<open>isDateBlocked\<close>: \<open>today\<close> and \<open>target\<close> are both at
  their local midnight.
\<close>

definition diffDays :: "jsdate \<Rightarrow> jsdate \<Rightarrow> int" where
  "diffDays today target =
     (let diffTime = getTime target - getTime today
      in Math_ceil_div diffTime (1000 * 60 * 60 * 24))"

text \<open>
  \<open>isDateBlocked\<close> reads the selected state from the form.  \<open>config.workdays.includes\<close>
  raises a \<open>TypeError\<close> when \<open>config\<close> is an inherited member, whose \<open>workdays\<close> is
  \<open>undefined\<close>.
\<close>

definition isDateBlocked ::
  "AppointmentRecord list \<Rightarrow> BlockRule list \<Rightarrow> (jsstring \<Rightarrow> jsval) \<Rightarrow> jsdate \<Rightarrow> jsdate
     \<Rightarrow> js_error + bool" where
  "isDateBlocked appointments blockedRules form today target =
     (case form (js ''state'') of
        JUndefined \<Rightarrow> Inr True
      | JNull \<Rightarrow> Inr True
      | JStr state \<Rightarrow>
          if state = [] then Inr True
          else
            (case STATE_CONFIG_get state of
               Missing \<Rightarrow> Inr True
             | Inherited \<Rightarrow>
                 if diffDays today target < 0 then Inr True else Inl TypeError
             | Own config \<Rightarrow>
                 if diffDays today target < 0 then Inr True
                 else if \<not> List.member (workdays config) (getDay target) then Inr True
                 else
                   let dateStr = formatDate target
                   in if List.member HOLIDAY_BLOCKS dateStr then Inr True
                      else
                        let isDynamicDayBlocked = list_ex (\<lambda>r.
                          rule_date r = dateStr \<and>
                          falsy (rule_time r) \<and>
                          (falsy (rule_state r) \<or> rule_state r = JStr state)) blockedRules
                        in if isDynamicDayBlocked then Inr True
                           else
                             let allSlotsUnavailable = list_all (\<lambda>time.
                               isSlotUnavailable appointments blockedRules dateStr time state)
                               OPERATING_HOURS
                             in if allSlotsUnavailable then Inr True else Inr False))"

subsection \<open>The clipboard summary\<close>

text \<open>
  A field of the form schema, with the members \<open>isFieldVisible\<close> and
  \<open>generateClipboardText\<close> read; \<open>showWhen.value\<close> is a string, a number or a boolean.
\<close>

datatype jsprim = PStr jsstring | PNum int | PBool bool

record ConditionalLogic =
  fieldId :: jsstring
  showValue :: jsprim

record FormField =
  field_id :: jsstring
  showWhen :: "ConditionalLogic option"
  prefix :: "jsstring option"
  suffix :: "jsstring option"

text \<open>\<open>v === p\<close> for a form value and a primitive: equal strings only.\<close>

fun strict_eq :: "jsval \<Rightarrow> jsprim \<Rightarrow> bool" where
  "strict_eq (JStr s) (PStr t) = (s = t)"
| "strict_eq v p = False"

text \<open>\<open>s || ''\<close> for an optional string.\<close>

fun or_empty :: "jsstring option \<Rightarrow> jsstring" where
  "or_empty None = []"
| "or_empty (Some s) = s"

definition isFieldVisible :: "FormField \<Rightarrow> (jsstring \<Rightarrow> jsval) \<Rightarrow> bool" where
  "isFieldVisible field currentData =
     (case showWhen field of
        None \<Rightarrow> True
      | Some c \<Rightarrow> strict_eq (currentData (fieldId c)) (showValue c))"

text \<open>
  \<open>text.replace(/[\u{1F600}-\u{1F64F}]/gu, "")\<close>.  With the \<open>u\<close> flag the text is read
  by code points: a high surrogate followed by a low surrogate is one code point, any
  other code unit is a code point of its own.
\<close>

definition is_high_surrogate :: "16 word \<Rightarrow> bool" where
  "is_high_surrogate h = (0xD800 \<le> h \<and> h \<le> 0xDBFF)"

definition is_low_surrogate :: "16 word \<Rightarrow> bool" where
  "is_low_surrogate l = (0xDC00 \<le> l \<and> l \<le> 0xDFFF)"

definition code_point :: "16 word \<Rightarrow> 16 word \<Rightarrow> nat" where
  "code_point h l = 0x10000 + (unat h - 0xD800) * 0x400 + (unat l - 0xDC00)"

fun replace_emoticons :: "jsstring \<Rightarrow> jsstring" where
  "replace_emoticons (h # l # rest) =
     (if is_high_surrogate h \<and> is_low_surrogate l
      then (if 0x1F600 \<le> code_point h l \<and> code_point h l \<le> 0x1F64F
            then replace_emoticons rest
            else h # l # replace_emoticons rest)
      else h # replace_emoticons (l # rest))"
| "replace_emoticons [h] = [h]"
| "replace_emoticons [] = []"

text \<open>
  A text read as Unicode code points and written back: a high surrogate followed by a
  low surrogate stands for one code point from U+10000 on, any other code unit for the
  code point of its own value.  Removing code points from a text is filtering between
  the two.
\<close>

fun utf16_decode :: "jsstring \<Rightarrow> nat list" where
  "utf16_decode (h # l # rest) =
     (if 55296 \<le> unat h \<and> unat h \<le> 56319 \<and> 56320 \<le> unat l \<and> unat l \<le> 57343
      then (65536 + 1024 * (unat h - 55296) + (unat l - 56320)) # utf16_decode rest
      else unat h # utf16_decode (l # rest))"
| "utf16_decode [h] = [unat h]"
| "utf16_decode [] = []"

fun utf16_encode :: "nat list \<Rightarrow> jsstring" where
  "utf16_encode [] = []"
| "utf16_encode (cp # cps) =
     (if cp < 65536 then [of_nat cp]
      else [of_nat (55296 + (cp - 65536) div 1024), of_nat (56320 + (cp - 65536) mod 1024)])
     @ utf16_encode cps"

text \<open>
  The body of the \<open>forEach\<close> of \<open>generateClipboardText\<close>, on the text built so far.
  \<open>data k\<close> is the value of the read \<open>data[k]\<close>.
\<close>

definition append_field :: "(jsstring \<Rightarrow> jsval) \<Rightarrow> jsstring \<Rightarrow> FormField \<Rightarrow> jsstring" where
  "append_field data text field =
     (if isFieldVisible field data \<and> truthy (data (field_id field))
      then text @ (or_empty (prefix field) @ ToString (data (field_id field))
                     @ or_empty (suffix field))
      else text)"

definition generateClipboardText :: "(jsstring \<Rightarrow> jsval) \<Rightarrow> FormField list \<Rightarrow> jsstring" where
  "generateClipboardText data currentSchema =
     (let text = foldl (append_field data) [] currentSchema;
          text = text @ js ''Did you confirm the physical address?: Yes''
      in replace_emoticons text)"

section \<open>The schedule grid (ScheduleGrid.tsx)\<close>

definition isTimeBlocked :: "BlockRule list \<Rightarrow> jsstring \<Rightarrow> jsstring \<Rightarrow> jsstring \<Rightarrow> bool" where
  "isTimeBlocked blockedRules dateStr time state =
     list_ex (\<lambda>r.
       rule_date r = dateStr \<and>
       rule_time r = JStr time \<and>
       (falsy (rule_state r) \<or> rule_state r = JStr state)) blockedRules"

text \<open>The optional parameter \<open>state\<close> of \<open>isDayBlocked\<close> is a string or \<open>undefined\<close>.\<close>

definition isDayBlocked :: "jsstring \<Rightarrow> jsstring option \<Rightarrow> BlockRule list \<Rightarrow> bool" where
  "isDayBlocked dStr state rules =
     list_ex (\<lambda>r.
       rule_date r = dStr \<and>
       falsy (rule_time r) \<and>
       (falsy (rule_state r) \<or>
        (case state of None \<Rightarrow> False | Some s \<Rightarrow> s \<noteq> [] \<and> rule_state r = JStr s))) rules"

text \<open>A rule without its \<open>id\<close>: what is sent to the table store on insert.\<close>

record rule_row =
  row_date :: jsstring
  row_time :: jsval
  row_state :: jsval
  row_reason :: jsval

definition without_id :: "BlockRule \<Rightarrow> rule_row" where
  "without_id r =
     \<lparr>row_date = rule_date r, row_time = rule_time r, row_state = rule_state r,
      row_reason = rule_reason r\<rparr>"

text \<open>The calls made on the table \<open>block_rules\<close> of the store.\<close>

datatype store_call = DeleteEq jsstring | DeleteIn "jsstring list" | Insert "rule_row list"

text \<open>
  \<open>toggleBlockTime\<close>.  The store's answers are arguments: \<open>deleteError\<close> tells whether
  the delete call returned an error, \<open>inserted\<close> is the row the insert call returned
  (\<open>None\<close> on an error).  The result is the calls made and the new \<open>blockedRules\<close>.
\<close>

definition toggleBlockTime ::
  "bool \<Rightarrow> BlockRule list \<Rightarrow> jsstring \<Rightarrow> bool \<Rightarrow> BlockRule option \<Rightarrow> jsstring \<Rightarrow> jsstring
     \<Rightarrow> store_call list \<times> BlockRule list" where
  "toggleBlockTime isAdmin blockedRules dateStr deleteError inserted time state =
     (if \<not> isAdmin then ([], blockedRules)
      else
        (case find (\<lambda>r.
                rule_date r = dateStr \<and>
                rule_time r = JStr time \<and>
                (falsy (rule_state r) \<or> rule_state r = JStr state)) blockedRules of
           Some existing \<Rightarrow>
             ([DeleteEq (rule_id existing)],
              if \<not> deleteError
              then filter (\<lambda>r. rule_id r \<noteq> rule_id existing) blockedRules
              else blockedRules)
         | None \<Rightarrow>
             let newRule = \<lparr>row_date = dateStr, row_time = JStr time, row_state = JStr state,
                            row_reason = JStr (js ''Manual Slot Block'')\<rparr>
             in ([Insert [newRule]],
                 case inserted of
                   Some data \<Rightarrow> blockedRules @ [data]
                 | None \<Rightarrow> blockedRules)))"

text \<open>
  \<open>saveBlockModal\<close>, from the committed rules \<open>blockedRules\<close> and the working copy
  \<open>tempBlockedRules\<close>.  The store's answers are arguments: \<open>insertData\<close> is the data
  the insert call returned and \<open>allRules\<close> the data of the read that follows it
  (\<open>None\<close> for \<open>null\<close>).  The result is the batch of writes made and the new
  \<open>blockedRules\<close>.
\<close>

definition saveBlockModal ::
  "BlockRule list \<Rightarrow> BlockRule list \<Rightarrow> BlockRule list option \<Rightarrow> BlockRule list option
     \<Rightarrow> store_call list \<times> BlockRule list" where
  "saveBlockModal blockedRules tempBlockedRules insertData allRules =
     (let added = filter (\<lambda>tr. find (\<lambda>br. rule_id br = rule_id tr) blockedRules = None)
                    tempBlockedRules;
          removed = filter (\<lambda>br. find (\<lambda>tr. rule_id tr = rule_id br) tempBlockedRules = None)
                      blockedRules
      in ((if length removed > 0 then [DeleteIn (map rule_id removed)] else []) @
          (if length added > 0 then [Insert (map without_id added)] else []),
          if length added > 0
          then (case insertData of
                  Some data \<Rightarrow> (case allRules of Some rs \<Rightarrow> rs | None \<Rightarrow> blockedRules)
                | None \<Rightarrow> blockedRules)
          else tempBlockedRules))"

text \<open>
  Modelled from the spec: the table store behind \<open>block_rules\<close>, an external service.
  \<open>deleteBlockRule\<close> removes the rows with the identifiers given; \<open>createBlockRule\<close>
  stores each row under an identifier that the server assigns, here the identifiers
  \<open>serverIds\<close> in order.
\<close>

definition with_id :: "jsstring \<Rightarrow> rule_row \<Rightarrow> BlockRule" where
  "with_id i row =
     \<lparr>rule_id = i, rule_date = row_date row, rule_time = row_time row,
      rule_state = row_state row, rule_reason = row_reason row\<rparr>"

fun store_apply :: "jsstring list \<Rightarrow> BlockRule list \<Rightarrow> store_call \<Rightarrow> BlockRule list" where
  "store_apply serverIds table (DeleteEq i) = filter (\<lambda>r. rule_id r \<noteq> i) table"
| "store_apply serverIds table (DeleteIn ids) =
     filter (\<lambda>r. \<not> List.member ids (rule_id r)) table"
| "store_apply serverIds table (Insert rows) =
     table @ map (\<lambda>(i, row). with_id i row) (zip serverIds rows)"

definition store_run :: "jsstring list \<Rightarrow> store_call list \<Rightarrow> BlockRule list \<Rightarrow> BlockRule list" where
  "store_run serverIds calls table = foldl (store_apply serverIds) table calls"

text \<open>
  \<open>toggleDateBlockFromCalendar\<close> on the working copy.  \<open>d\<close> is the date built from the
  month shown and the day clicked, \<open>newId\<close> the result of \<open>crypto.randomUUID()\<close>.
\<close>

definition toggleDateBlockFromCalendar ::
  "BlockRule list \<Rightarrow> jsstring \<Rightarrow> jsstring \<Rightarrow> jsdate \<Rightarrow> BlockRule list" where
  "toggleDateBlockFromCalendar tempBlockedRules blockStateFilter newId d =
     (let dStr = formatDate d;
          targetState = (if blockStateFilter = js ''ALL'' then None else Some blockStateFilter);
          currentlyBlocked = isDayBlocked dStr targetState tempBlockedRules
      in if currentlyBlocked
         then filter (\<lambda>r.
                let isSameDate = (rule_date r = dStr \<and> falsy (rule_time r))
                in if \<not> isSameDate then True
                   else (case targetState of
                           None \<Rightarrow> rule_state r \<noteq> JUndefined \<and> rule_state r \<noteq> JNull
                         | Some s \<Rightarrow> rule_state r \<noteq> JStr s)) tempBlockedRules
         else
           let newRule = \<lparr>rule_id = newId, rule_date = dStr, rule_time = JUndefined,
                          rule_state = (case targetState of None \<Rightarrow> JUndefined | Some s \<Rightarrow> JStr s),
                          rule_reason = JStr (js ''Manual Calendar Block'')\<rparr>
           in tempBlockedRules @ [newRule])"

section \<open>Example inputs\<close>

text \<open>A form in which only the state has been selected.\<close>

definition select_state :: "jsstring \<Rightarrow> jsstring \<Rightarrow> jsval" where
  "select_state s k = (if k = js ''state'' then JStr s else JUndefined)"

text \<open>An appointment booked for a date, a time and a state.\<close>

definition booking :: "jsstring \<Rightarrow> jsstring \<Rightarrow> jsstring \<Rightarrow> AppointmentRecord" where
  "booking d t s =
     \<lparr>appt_id = js ''a1'', createdAt = 0,
      formData = (\<lambda>k. if k = js ''appointmentDate'' then JStr d
                       else if k = js ''appointmentTime'' then JStr t
                       else if k = js ''state'' then JStr s
                       else JUndefined),
      clipboardSummary = []\<rparr>"

text \<open>A whole-day rule as the store returns it: the column \<open>time\<close> is \<open>null\<close>.\<close>

definition whole_day_rule :: "jsstring \<Rightarrow> jsstring \<Rightarrow> jsval \<Rightarrow> BlockRule" where
  "whole_day_rule i d st =
     \<lparr>rule_id = i, rule_date = d, rule_time = JNull, rule_state = st,
      rule_reason = JStr (js ''Manual Calendar Block'')\<rparr>"

text \<open>A single-slot rule.\<close>

definition slot_rule :: "jsstring \<Rightarrow> jsstring \<Rightarrow> jsstring \<Rightarrow> jsval \<Rightarrow> BlockRule" where
  "slot_rule i d t st =
     \<lparr>rule_id = i, rule_date = d, rule_time = JStr t, rule_state = st,
      rule_reason = JStr (js ''Manual Slot Block'')\<rparr>"

text \<open>
  Dates as a browser in the time zone America/New\_York observes them: the time values
  are those of the local midnights.
\<close>

definition mon_2025_06_02 :: jsdate where
  "mon_2025_06_02 =
     \<lparr>getTime = 1748836800000, getDay = 1, getFullYear = 2025, getMonth = 5, getDate = 2\<rparr>"

definition sat_2025_06_07 :: jsdate where
  "sat_2025_06_07 =
     \<lparr>getTime = 1749268800000, getDay = 6, getFullYear = 2025, getMonth = 5, getDate = 7\<rparr>"

definition mon_2025_12_22 :: jsdate where
  "mon_2025_12_22 =
     \<lparr>getTime = 1766379600000, getDay = 1, getFullYear = 2025, getMonth = 11, getDate = 22\<rparr>"

definition thu_2025_12_25 :: jsdate where
  "thu_2025_12_25 =
     \<lparr>getTime = 1766638800000, getDay = 4, getFullYear = 2025, getMonth = 11, getDate = 25\<rparr>"

definition mon_2024_12_23 :: jsdate where
  "mon_2024_12_23 =
     \<lparr>getTime = 1734930000000, getDay = 1, getFullYear = 2024, getMonth = 11, getDate = 23\<rparr>"

definition wed_2024_12_25 :: jsdate where
  "wed_2024_12_25 =
     \<lparr>getTime = 1735102800000, getDay = 3, getFullYear = 2024, getMonth = 11, getDate = 25\<rparr>"

text \<open>
  The day on which daylight-saving time begins has 23 hours.  In America/New\_York that
  was Sunday 9 March 2025 (midnight at 05:00 UTC, the next midnight at 04:00 UTC); in
  Asia/Jerusalem it was Friday 28 March 2025 (midnight at 22:00 UTC of the day before,
  the next midnight at 21:00 UTC).
\<close>

definition ny_sun_2025_03_09 :: jsdate where
  "ny_sun_2025_03_09 =
     \<lparr>getTime = 1741496400000, getDay = 0, getFullYear = 2025, getMonth = 2, getDate = 9\<rparr>"

definition ny_mon_2025_03_10 :: jsdate where
  "ny_mon_2025_03_10 =
     \<lparr>getTime = 1741579200000, getDay = 1, getFullYear = 2025, getMonth = 2, getDate = 10\<rparr>"

definition jerusalem_fri_2025_03_28 :: jsdate where
  "jerusalem_fri_2025_03_28 =
     \<lparr>getTime = 1743112800000, getDay = 5, getFullYear = 2025, getMonth = 2, getDate = 28\<rparr>"

definition jerusalem_sat_2025_03_29 :: jsdate where
  "jerusalem_sat_2025_03_29 =
     \<lparr>getTime = 1743195600000, getDay = 6, getFullYear = 2025, getMonth = 2, getDate = 29\<rparr>"

text \<open>The order of calendar dates (year, month, day of the month), times of day ignored.\<close>

definition date_only_before :: "jsdate \<Rightarrow> jsdate \<Rightarrow> bool" where
  "date_only_before a b =
     (getFullYear a < getFullYear b \<or>
      (getFullYear a = getFullYear b \<and>
       (getMonth a < getMonth b \<or> (getMonth a = getMonth b \<and> getDate a < getDate b))))"

text \<open>The field \<open>notes\<close> of the default schema.\<close>

definition notes_field :: FormField where
  "notes_field =
     \<lparr>field_id = js ''notes'', showWhen = None, prefix = Some (js ''Notes: ''),
      suffix = Some (js ''\<newline>'')\<rparr>"

text \<open>The fields \<open>roofCondition\<close> and \<open>damageDescription\<close> of the default schema.\<close>

definition condition_field :: FormField where
  "condition_field =
     \<lparr>field_id = js ''roofCondition'', showWhen = None, prefix = Some (js ''Condition: ''),
      suffix = Some (js ''\<newline>'')\<rparr>"

definition damage_field :: FormField where
  "damage_field =
     \<lparr>field_id = js ''damageDescription'',
      showWhen = Some \<lparr>fieldId = js ''roofCondition'', showValue = PStr (js ''Damaged'')\<rparr>,
      prefix = Some (js ''Damage: ''), suffix = Some (js ''\<newline>'')\<rparr>"

text \<open>
  A form with a damaged roof, a description that ends in U+1F600 and empty notes; and a
  form with a roof of unknown condition, a description left over from before, and notes
  that are U+1F680.
\<close>

definition damaged_form :: "jsstring \<Rightarrow> jsval" where
  "damaged_form k =
     (if k = js ''roofCondition'' then JStr (js ''Damaged'')
      else if k = js ''damageDescription'' then JStr (js ''hail '' @ [0xD83D, 0xDE00])
      else if k = js ''notes'' then JStr []
      else JUndefined)"

definition unknown_form :: "jsstring \<Rightarrow> jsval" where
  "unknown_form k =
     (if k = js ''roofCondition'' then JStr (js ''Unknown'')
      else if k = js ''damageDescription'' then JStr (js ''hail'')
      else if k = js ''notes'' then JStr [0xD83D, 0xDE80]
      else JUndefined)"

text \<open>
  A working copy with three whole-day rules for 2 June 2025: one for all states, one for
  GA and one for TN.
\<close>

definition global_rule :: BlockRule where
  "global_rule = whole_day_rule (js ''g'') (js ''2025-06-02'') JNull"

definition ga_rule :: BlockRule where
  "ga_rule = whole_day_rule (js ''a'') (js ''2025-06-02'') (JStr (js ''GA''))"

definition tn_rule :: BlockRule where
  "tn_rule = whole_day_rule (js ''t'') (js ''2025-06-02'') (JStr (js ''TN''))"

text \<open>A rule that blocks the slot at 9:00 AM of 2 June 2025 for all states.\<close>

definition global_slot_rule :: BlockRule where
  "global_slot_rule = slot_rule (js ''s'') (js ''2025-06-02'') (js ''9:00 AM'') JNull"

section \<open>Facts about the configuration and the values\<close>

lemma truthy_iff_not_falsy: "truthy v = (\<not> falsy v)"
  by (cases v) simp_all

text \<open>Distinct literals are distinct strings.\<close>

lemma unat_js_char: "unat (of_nat (of_char c) :: 16 word) = of_char c"
proof -
  have "(of_char c :: nat) < 256" by simp
  then have "(of_char c :: nat) < 65536" by linarith
  then show ?thesis by (simp add: unat_of_nat)
qed

lemma inj_js_char: "inj (\<lambda>c. of_nat (of_char c) :: 16 word)"
proof (rule injI)
  fix c d :: char
  assume "(of_nat (of_char c) :: 16 word) = of_nat (of_char d)"
  then have "unat (of_nat (of_char c) :: 16 word) = unat (of_nat (of_char d) :: 16 word)"
    by simp
  then have "(of_char c :: nat) = of_char d" by (simp only: unat_js_char)
  then show "c = d" by simp
qed

lemma js_eq_iff [simp]: "js a = js b \<longleftrightarrow> a = b"
  unfolding js_def by (rule inj_map_eq_map [OF inj_js_char])

lemma js_eq_Nil [simp]: "js a = [] \<longleftrightarrow> a = []"
  by (simp add: js_def)

lemma js_append: "js a @ js b = js (a @ b)"
  by (simp add: js_def)

lemma STATE_CONFIG_get_empty: "STATE_CONFIG_get [] = Missing"
  by (simp add: STATE_CONFIG_get_def STATE_CONFIG_def Object_prototype_names_def js_def)

lemma STATE_CONFIG_get_key: "map_of STATE_CONFIG k = Some c \<Longrightarrow> STATE_CONFIG_get k = Own c"
  by (simp add: STATE_CONFIG_get_def)

lemma STATE_CONFIG_key_nonempty: "map_of STATE_CONFIG k = Some c \<Longrightarrow> k \<noteq> []"
  by (auto simp: STATE_CONFIG_def js_def)

lemma STATE_CONFIG_get_GA:
  "map_of STATE_CONFIG (js ''GA'') = Some \<lparr>capacity = 9, workdays = [1, 2, 3, 4, 5, 6]\<rparr>"
  by (simp add: STATE_CONFIG_def js_def)

lemma STATE_CONFIG_get_AL:
  "map_of STATE_CONFIG (js ''AL'') = Some \<lparr>capacity = 2, workdays = [1, 2, 3, 4, 5]\<rparr>"
  by (simp add: STATE_CONFIG_def js_def)

lemma formatDate_examples:
  "formatDate mon_2025_06_02 = js ''2025-06-02''"
  "formatDate thu_2025_12_25 = js ''2025-12-25''"
  "formatDate wed_2024_12_25 = js ''2024-12-25''"
  "formatDate jerusalem_fri_2025_03_28 = js ''2025-03-28''"
  by (simp_all add: formatDate_def Number_toString_def padStart2_def digits.simps js_def
      mon_2025_06_02_def thu_2025_12_25_def wed_2024_12_25_def jerusalem_fri_2025_03_28_def)

section \<open>The slot check\<close>

text \<open>
  For a key of the configuration table the slot is unavailable exactly when the bookings
  for (date, time, state) reach the capacity or a rule for the date and the time applies
  to the state.
\<close>

lemma isSlotUnavailable_configured:
  assumes "map_of STATE_CONFIG state = Some c"
  shows "isSlotUnavailable appointments blockedRules dateStr time state \<longleftrightarrow>
     capacity c \<le> length (filter (\<lambda>a.
              formData a (js ''appointmentDate'') = JStr dateStr \<and>
              formData a (js ''appointmentTime'') = JStr time \<and>
              formData a (js ''state'') = JStr state) appointments) \<or>
     list_ex (\<lambda>r. rule_date r = dateStr \<and> rule_time r = JStr time \<and>
               (falsy (rule_state r) \<or> rule_state r = JStr state)) blockedRules"
proof -
  from assms have "state \<noteq> []" by (rule STATE_CONFIG_key_nonempty)
  moreover from assms have "STATE_CONFIG_get state = Own c" by (rule STATE_CONFIG_get_key)
  ultimately show ?thesis by (simp add: isSlotUnavailable_def Let_def)
qed

text \<open>A state that is empty or resolves to nothing is unavailable.\<close>

lemma isSlotUnavailable_unknown:
  "state = [] \<or> STATE_CONFIG_get state = Missing \<Longrightarrow>
     isSlotUnavailable appointments blockedRules dateStr time state"
  by (simp add: isSlotUnavailable_def)

text \<open>The capacity boundary for AL, whose capacity is 2.\<close>

lemma isSlotUnavailable_capacity_boundary:
  "isSlotUnavailable
     [booking (js ''2025-06-02'') (js ''9:00 AM'') (js ''AL''),
      booking (js ''2025-06-02'') (js ''9:00 AM'') (js ''AL'')] []
     (js ''2025-06-02'') (js ''9:00 AM'') (js ''AL'')"
  "\<not> isSlotUnavailable
     [booking (js ''2025-06-02'') (js ''9:00 AM'') (js ''AL'')] []
     (js ''2025-06-02'') (js ''9:00 AM'') (js ''AL'')"
  by (simp_all add: isSlotUnavailable_configured [OF STATE_CONFIG_get_AL] booking_def)

text \<open>
  The state select stores the empty string or a key of the table, and no key and no
  missing name is the name of a member of \<open>Object.prototype\<close>.  Outside those values:
  \<open>constructor\<close> is not a key of the table, the read \<open>STATE_CONFIG[state]\<close> gives the
  inherited member, and with no booking and no rule the slot is reported available.
\<close>

lemma isSlotUnavailable_prototype_member:
  "map_of STATE_CONFIG (js ''constructor'') = None \<and>
   isSlotUnavailable [] [] (js ''2025-06-02'') (js ''9:00 AM'') (js ''constructor'') = False"
  by (simp add: isSlotUnavailable_def STATE_CONFIG_get_def STATE_CONFIG_def
      Object_prototype_names_def js_def)

lemma falsy_iff: "falsy v \<longleftrightarrow> v = JUndefined \<or> v = JNull \<or> v = JStr []"
  by (cases v) simp_all

lemma not_prototype_name:
  "\<not> List.member Object_prototype_names (js ''XX'')"
  "\<not> List.member Object_prototype_names (js ''GA'')"
  "\<not> List.member Object_prototype_names (js ''TN'')"
  "\<not> List.member Object_prototype_names (js ''AL'')"
  "\<not> List.member Object_prototype_names []"
  by (simp_all add: Object_prototype_names_def) (simp add: js_def)

text \<open>
  Claim C1: for every date, time and region code that is not the name of a member of
  \<open>Object.prototype\<close> (so for the empty string, every key of the table and every
  other name), \<open>isSlotUnavailable\<close> returns true exactly when the code is not a key of
  the table, or the appointments whose form data have this date, time and state are at
  least as many as the capacity of the region, or some rule has this date, exactly this
  time and a state that is absent (\<open>undefined\<close>, \<open>null\<close> or empty) or this region.
  Each of the last two conditions suffices alone.
\<close>

theorem isSlotUnavailable_characterisation:
  assumes "\<not> List.member Object_prototype_names r"
  shows "isSlotUnavailable appointments blockedRules d t r \<longleftrightarrow>
     map_of STATE_CONFIG r = None \<or>
     (\<exists>c. map_of STATE_CONFIG r = Some c \<and>
          capacity c \<le> length (filter (\<lambda>a.
            formData a (js ''appointmentDate'') = JStr d \<and>
            formData a (js ''appointmentTime'') = JStr t \<and>
            formData a (js ''state'') = JStr r) appointments)) \<or>
     (\<exists>x \<in> set blockedRules. rule_date x = d \<and> rule_time x = JStr t \<and>
        (rule_state x = JUndefined \<or> rule_state x = JNull \<or> rule_state x = JStr [] \<or>
         rule_state x = JStr r))"
proof (cases "map_of STATE_CONFIG r")
  case None
  with assms have "STATE_CONFIG_get r = Missing" by (simp add: STATE_CONFIG_get_def)
  then have "isSlotUnavailable appointments blockedRules d t r"
    by (simp add: isSlotUnavailable_unknown)
  with None show ?thesis by simp
next
  case (Some c)
  show ?thesis
    unfolding isSlotUnavailable_configured [OF Some] list_ex_iff falsy_iff
    using Some by simp
qed

theorem isSlotUnavailable_characterisation_witness:
  "isSlotUnavailable [] [] (js ''2025-06-02'') (js ''9:00 AM'') (js ''XX'') \<and>
   isSlotUnavailable
     [booking (js ''2025-06-02'') (js ''9:00 AM'') (js ''AL''),
      booking (js ''2025-06-02'') (js ''9:00 AM'') (js ''AL'')] []
     (js ''2025-06-02'') (js ''9:00 AM'') (js ''AL'') \<and>
   isSlotUnavailable
     [booking (js ''2025-06-02'') (js ''9:00 AM'') (js ''AL'')] []
     (js ''2025-06-02'') (js ''9:00 AM'') (js ''AL'') = False \<and>
   isSlotUnavailable []
     [slot_rule (js ''s'') (js ''2025-06-02'') (js ''2:00 PM'') (JStr (js ''GA''))]
     (js ''2025-06-02'') (js ''2:00 PM'') (js ''GA'') \<and>
   isSlotUnavailable []
     [slot_rule (js ''s'') (js ''2025-06-02'') (js ''2:00 PM'') (JStr (js ''GA''))]
     (js ''2025-06-02'') (js ''2:00 PM'') (js ''TN'') = False"
  using
    isSlotUnavailable_characterisation [OF not_prototype_name(1), of "[]" "[]"
      "js ''2025-06-02''" "js ''9:00 AM''"]
    isSlotUnavailable_characterisation [OF not_prototype_name(4),
      of "[booking (js ''2025-06-02'') (js ''9:00 AM'') (js ''AL''),
           booking (js ''2025-06-02'') (js ''9:00 AM'') (js ''AL'')]" "[]"
      "js ''2025-06-02''" "js ''9:00 AM''"]
    isSlotUnavailable_characterisation [OF not_prototype_name(4),
      of "[booking (js ''2025-06-02'') (js ''9:00 AM'') (js ''AL'')]" "[]"
      "js ''2025-06-02''" "js ''9:00 AM''"]
    isSlotUnavailable_characterisation [OF not_prototype_name(2), of "[]"
      "[slot_rule (js ''s'') (js ''2025-06-02'') (js ''2:00 PM'') (JStr (js ''GA''))]"
      "js ''2025-06-02''" "js ''2:00 PM''"]
    isSlotUnavailable_characterisation [OF not_prototype_name(3), of "[]"
      "[slot_rule (js ''s'') (js ''2025-06-02'') (js ''2:00 PM'') (JStr (js ''GA''))]"
      "js ''2025-06-02''" "js ''2:00 PM''"]
  by (simp add: STATE_CONFIG_def booking_def slot_rule_def)

text \<open>
  With no state selected, and with a state that resolves to nothing, every date is
  blocked.
\<close>

lemma isDateBlocked_no_state:
  "falsy (form (js ''state'')) \<Longrightarrow>
     isDateBlocked appointments blockedRules form today target = Inr True"
  by (cases "form (js ''state'')") (simp_all add: isDateBlocked_def)

lemma isDateBlocked_unknown_state:
  "form (js ''state'') = JStr state \<Longrightarrow> STATE_CONFIG_get state = Missing \<Longrightarrow>
     isDateBlocked appointments blockedRules form today target = Inr True"
  by (simp add: isDateBlocked_def)

text \<open>
  Outside the values the state select stores: for \<open>constructor\<close> the guard \<open>!config\<close>
  lets the inherited member through, and on a date that is not past the read of
  \<open>config.workdays\<close> gives \<open>undefined\<close>, on which \<open>includes\<close> raises.
\<close>

lemma isDateBlocked_prototype_member_raises:
  "map_of STATE_CONFIG (js ''constructor'') = None \<and>
   isDateBlocked [] [] (select_state (js ''constructor'')) mon_2025_06_02 mon_2025_06_02
     = Inl TypeError \<and>
   isSlotUnavailable [] [] (js ''2025-06-02'') (js ''9:00 AM'') (js ''toString'') = False"
  by (simp add: isDateBlocked_def isSlotUnavailable_def select_state_def diffDays_def
      Math_ceil_div_def STATE_CONFIG_get_def STATE_CONFIG_def Object_prototype_names_def
      js_def)

text \<open>
  Claim C3: with no state selected (\<open>undefined\<close>, \<open>null\<close> or the empty string)
  \<open>isDateBlocked\<close> returns true for every date; for every region code that is not a key
  of the table and not the name of a member of \<open>Object.prototype\<close>, \<open>isDateBlocked\<close>
  returns true for every date and \<open>isSlotUnavailable\<close> true for every date and time; and
  for every state that is not such a name (the select stores no other)
  \<open>isDateBlocked\<close> returns a value and does not raise.  \<open>isSlotUnavailable\<close> returns a
  truth value on every input.
\<close>

theorem unknown_region_blocked_never_raises:
  assumes "\<not> List.member Object_prototype_names r"
  shows "(form (js ''state'') = JUndefined \<or> form (js ''state'') = JNull \<or>
          form (js ''state'') = JStr [] \<longrightarrow>
            isDateBlocked appointments blockedRules form today target = Inr True) \<and>
         (map_of STATE_CONFIG r = None \<longrightarrow>
            isSlotUnavailable appointments blockedRules d t r = True \<and>
            (form (js ''state'') = JStr r \<longrightarrow>
               isDateBlocked appointments blockedRules form today target = Inr True)) \<and>
         (form (js ''state'') = JStr r \<longrightarrow>
            (\<exists>b. isDateBlocked appointments blockedRules form today target = Inr b))"
proof -
  have absent: "form (js ''state'') = JUndefined \<or> form (js ''state'') = JNull \<or>
          form (js ''state'') = JStr [] \<longrightarrow>
            isDateBlocked appointments blockedRules form today target = Inr True"
    by (auto simp: isDateBlocked_no_state)
  have unknown: "map_of STATE_CONFIG r = None \<longrightarrow>
            isSlotUnavailable appointments blockedRules d t r = True \<and>
            (form (js ''state'') = JStr r \<longrightarrow>
               isDateBlocked appointments blockedRules form today target = Inr True)"
  proof
    assume "map_of STATE_CONFIG r = None"
    with assms have m: "STATE_CONFIG_get r = Missing" by (simp add: STATE_CONFIG_get_def)
    then show "isSlotUnavailable appointments blockedRules d t r = True \<and>
            (form (js ''state'') = JStr r \<longrightarrow>
               isDateBlocked appointments blockedRules form today target = Inr True)"
      by (simp add: isSlotUnavailable_unknown isDateBlocked_unknown_state)
  qed
  have total: "form (js ''state'') = JStr r \<longrightarrow>
            (\<exists>b. isDateBlocked appointments blockedRules form today target = Inr b)"
    using assms
    by (auto simp: isDateBlocked_def STATE_CONFIG_get_def Let_def split: option.splits)
  from absent unknown total show ?thesis by blast
qed

theorem unknown_region_blocked_never_raises_witness:
  "isDateBlocked [] [] (\<lambda>k. JUndefined) mon_2025_06_02 mon_2025_06_02 = Inr True \<and>
   isDateBlocked [] [] (select_state []) mon_2025_06_02 mon_2025_06_02 = Inr True \<and>
   isDateBlocked [] [] (select_state (js ''XX'')) mon_2025_06_02 mon_2025_06_02 = Inr True \<and>
   isSlotUnavailable [] [] (js ''2025-06-02'') (js ''9:00 AM'') (js ''XX'') = True \<and>
   (\<exists>b. isDateBlocked [] [] (select_state (js ''GA'')) mon_2025_06_02 mon_2025_06_02 = Inr b)"
  using
    unknown_region_blocked_never_raises [OF not_prototype_name(1),
      where form = "\<lambda>k. JUndefined" and appointments = "[]" and blockedRules = "[]"
        and today = mon_2025_06_02 and target = mon_2025_06_02]
    unknown_region_blocked_never_raises [OF not_prototype_name(5),
      where form = "select_state []" and appointments = "[]" and blockedRules = "[]"
        and today = mon_2025_06_02 and target = mon_2025_06_02]
    unknown_region_blocked_never_raises [OF not_prototype_name(1),
      where form = "select_state (js ''XX'')" and appointments = "[]" and blockedRules = "[]"
        and today = mon_2025_06_02 and target = mon_2025_06_02
        and d = "js ''2025-06-02''" and t = "js ''9:00 AM''"]
    unknown_region_blocked_never_raises [OF not_prototype_name(2),
      where form = "select_state (js ''GA'')" and appointments = "[]" and blockedRules = "[]"
        and today = mon_2025_06_02 and target = mon_2025_06_02]
  by (simp add: select_state_def STATE_CONFIG_def)

section \<open>The date check\<close>

subsection \<open>Lead time\<close>

text \<open>
  The lead-time step blocks exactly the dates whose local midnight lies a full 24 hours
  or more before today's; today itself is never blocked by it.
\<close>

lemma lead_time_blocks_iff:
  "diffDays today target < 0 \<longleftrightarrow> getTime target + 86400000 \<le> getTime today"
  unfolding diffDays_def Math_ceil_div_def Let_def by (auto simp: pos_imp_zdiv_pos_iff)

lemma lead_time_same_day: "getTime target = getTime today \<Longrightarrow> \<not> diffDays today target < 0"
  by (simp add: lead_time_blocks_iff)

text \<open>
  Claim C2 says that the lead-time step blocks a date exactly when it is strictly before
  today by calendar date, so that every past date is blocked.  The comment at the test
  says the same (\<open>Block past dates only\<close>).  After a day of 23 hours the test misses
  yesterday: the difference of the midnights is \<open>-82800000\<close> ms, \<open>Math.ceil\<close> of
  \<open>-0.958\<close> is \<open>-0\<close>, and \<open>-0 < 0\<close> is false.  In America/New\_York on Monday 10 March
  2025 the step does not block Sunday 9 March; in Asia/Jerusalem on Saturday 29 March
  2025 the whole check reports Friday 28 March, a workday of GA, as not blocked.
\<close>

theorem lead_time_misses_day_after_short_day:
  "date_only_before ny_sun_2025_03_09 ny_mon_2025_03_10 \<and>
   \<not> diffDays ny_mon_2025_03_10 ny_sun_2025_03_09 < 0 \<and>
   date_only_before jerusalem_fri_2025_03_28 jerusalem_sat_2025_03_29 \<and>
   isDateBlocked [] [] (select_state (js ''GA'')) jerusalem_sat_2025_03_29
     jerusalem_fri_2025_03_28 = Inr False"
proof -
  have a: "date_only_before ny_sun_2025_03_09 ny_mon_2025_03_10"
    by (simp add: date_only_before_def ny_sun_2025_03_09_def ny_mon_2025_03_10_def)
  have b: "\<not> diffDays ny_mon_2025_03_10 ny_sun_2025_03_09 < 0"
    by (simp add: lead_time_blocks_iff ny_sun_2025_03_09_def ny_mon_2025_03_10_def)
  have c: "date_only_before jerusalem_fri_2025_03_28 jerusalem_sat_2025_03_29"
    by (simp add: date_only_before_def jerusalem_fri_2025_03_28_def
        jerusalem_sat_2025_03_29_def)
  have d: "\<not> diffDays jerusalem_sat_2025_03_29 jerusalem_fri_2025_03_28 < 0"
    by (simp add: lead_time_blocks_iff jerusalem_fri_2025_03_28_def
        jerusalem_sat_2025_03_29_def)
  have e: "getDay jerusalem_fri_2025_03_28 = 5"
    by (simp add: jerusalem_fri_2025_03_28_def)
  have f: "\<not> isSlotUnavailable [] [] (js ''2025-03-28'') (js ''9:00 AM'') (js ''GA'')"
    by (simp add: isSlotUnavailable_configured [OF STATE_CONFIG_get_GA])
  have "isDateBlocked [] [] (select_state (js ''GA'')) jerusalem_sat_2025_03_29
     jerusalem_fri_2025_03_28 = Inr False"
    using d e f
    by (simp add: isDateBlocked_def select_state_def STATE_CONFIG_get_key [OF STATE_CONFIG_get_GA]
        formatDate_examples HOLIDAY_BLOCKS_def OPERATING_HOURS_def)
  with a b c show ?thesis by simp
qed

subsection \<open>Workdays\<close>

lemma weekday_regions:
  "map_of STATE_CONFIG (js ''SC'') = Some \<lparr>capacity = 1, workdays = [1, 2, 3, 4, 5]\<rparr>"
  "map fst (filter (\<lambda>(k, c). set (workdays c) = {1, 2, 3, 4, 5}) STATE_CONFIG)
     = [js ''AL'', js ''SC'']"
  by (auto simp: STATE_CONFIG_def)

text \<open>
  Claim C5: for every region of the table whose workdays are Monday to Friday,
  \<open>isDateBlocked\<close> returns true for every Saturday and every Sunday, whatever the
  appointments, the block rules and today's date are.
\<close>

theorem weekend_blocked_for_weekday_regions:
  assumes "form (js ''state'') = JStr state"
    and "map_of STATE_CONFIG state = Some config"
    and "set (workdays config) = {1, 2, 3, 4, 5}"
    and "getDay target = 0 \<or> getDay target = 6"
  shows "isDateBlocked appointments blockedRules form today target = Inr True"
proof -
  from assms(2) have ne: "state \<noteq> []" by (rule STATE_CONFIG_key_nonempty)
  from assms(2) have own: "STATE_CONFIG_get state = Own config" by (rule STATE_CONFIG_get_key)
  from assms(3,4) have "\<not> List.member (workdays config) (getDay target)" by auto
  with assms(1) ne own show ?thesis by (simp add: isDateBlocked_def)
qed

theorem weekend_blocked_for_weekday_regions_witness:
  "isDateBlocked [] [] (select_state (js ''AL'')) mon_2025_06_02 sat_2025_06_07 = Inr True \<and>
   isDateBlocked [] [] (select_state (js ''SC'')) mon_2025_06_02 sat_2025_06_07 = Inr True"
proof -
  have sat: "getDay sat_2025_06_07 = 0 \<or> getDay sat_2025_06_07 = 6"
    by (simp add: sat_2025_06_07_def)
  have al: "select_state (js ''AL'') (js ''state'') = JStr (js ''AL'')"
    and sc: "select_state (js ''SC'') (js ''state'') = JStr (js ''SC'')"
    by (simp_all add: select_state_def)
  have w: "set (workdays \<lparr>capacity = 2, workdays = [1, 2, 3, 4, 5]\<rparr>) = {1, 2, 3, 4, 5}"
    "set (workdays \<lparr>capacity = 1, workdays = [1, 2, 3, 4, 5]\<rparr>) = {1, 2, 3, 4, 5}"
    by simp_all
  show ?thesis
    using weekend_blocked_for_weekday_regions
        [where form = "select_state (js ''AL'')", OF al STATE_CONFIG_get_AL w(1) sat]
      weekend_blocked_for_weekday_regions
        [where form = "select_state (js ''SC'')", OF sc weekday_regions(1) w(2) sat]
    by simp
qed

subsection \<open>Whole-day rules\<close>

text \<open>
  Claim C4: a whole-day rule (one with no time) for the date, with no state or with the
  state of the region, makes \<open>isDateBlocked\<close> true for every region of the table,
  whatever the occupancy of the slots is; a rule with neither time nor state does so
  for every region.
\<close>

theorem whole_day_rule_blocks_date:
  assumes "form (js ''state'') = JStr state"
    and "map_of STATE_CONFIG state = Some config"
    and "r \<in> set blockedRules"
    and "rule_date r = formatDate target"
    and "falsy (rule_time r)"
    and "falsy (rule_state r) \<or> rule_state r = JStr state"
  shows "isDateBlocked appointments blockedRules form today target = Inr True"
proof -
  from assms(2) have ne: "state \<noteq> []" by (rule STATE_CONFIG_key_nonempty)
  from assms(2) have own: "STATE_CONFIG_get state = Own config" by (rule STATE_CONFIG_get_key)
  from assms(3-6) have "list_ex (\<lambda>r. rule_date r = formatDate target \<and> falsy (rule_time r) \<and>
      (falsy (rule_state r) \<or> rule_state r = JStr state)) blockedRules"
    unfolding list_ex_iff by blast
  with assms(1) ne own show ?thesis by (simp add: isDateBlocked_def Let_def)
qed

theorem whole_day_rule_blocks_date_witness:
  "isDateBlocked [] [whole_day_rule (js ''g'') (js ''2025-06-02'') JNull]
     (select_state (js ''GA'')) mon_2025_06_02 mon_2025_06_02 = Inr True \<and>
   isDateBlocked [] [whole_day_rule (js ''g'') (js ''2025-06-02'') JNull]
     (select_state (js ''AL'')) mon_2025_06_02 mon_2025_06_02 = Inr True \<and>
   list_all (\<lambda>time. isSlotUnavailable [] [whole_day_rule (js ''g'') (js ''2025-06-02'') JNull]
       (js ''2025-06-02'') time (js ''GA'') = False) OPERATING_HOURS \<and>
   isDateBlocked [] [] (select_state (js ''GA'')) mon_2025_06_02 mon_2025_06_02 = Inr False"
proof -
  let ?g = "whole_day_rule (js ''g'') (js ''2025-06-02'') JNull"
  have ga: "select_state (js ''GA'') (js ''state'') = JStr (js ''GA'')"
    and al: "select_state (js ''AL'') (js ''state'') = JStr (js ''AL'')"
    by (simp_all add: select_state_def)
  have mem: "?g \<in> set [?g]" by simp
  have d: "rule_date ?g = formatDate mon_2025_06_02"
    by (simp add: whole_day_rule_def formatDate_examples)
  have t: "falsy (rule_time ?g)" by (simp add: whole_day_rule_def)
  have st: "falsy (rule_state ?g) \<or> rule_state ?g = JStr (js ''GA'')"
    "falsy (rule_state ?g) \<or> rule_state ?g = JStr (js ''AL'')"
    by (simp_all add: whole_day_rule_def)
  have free: "list_all (\<lambda>time. isSlotUnavailable [] [?g] (js ''2025-06-02'') time (js ''GA'')
       = False) OPERATING_HOURS"
    by (simp add: isSlotUnavailable_configured [OF STATE_CONFIG_get_GA] OPERATING_HOURS_def
        whole_day_rule_def)
  have slot: "\<not> isSlotUnavailable [] [] (js ''2025-06-02'') (js ''9:00 AM'') (js ''GA'')"
    by (simp add: isSlotUnavailable_configured [OF STATE_CONFIG_get_GA])
  have today: "\<not> diffDays mon_2025_06_02 mon_2025_06_02 < 0"
    by (simp add: lead_time_same_day)
  have "getDay mon_2025_06_02 = 1" by (simp add: mon_2025_06_02_def)
  with slot today
  have none: "isDateBlocked [] [] (select_state (js ''GA'')) mon_2025_06_02 mon_2025_06_02
      = Inr False"
    by (simp add: isDateBlocked_def select_state_def
        STATE_CONFIG_get_key [OF STATE_CONFIG_get_GA] formatDate_examples HOLIDAY_BLOCKS_def
        OPERATING_HOURS_def)
  show ?thesis
    using whole_day_rule_blocks_date
        [where form = "select_state (js ''GA'')", OF ga STATE_CONFIG_get_GA mem d t st(1)]
      whole_day_rule_blocks_date
        [where form = "select_state (js ''AL'')", OF al STATE_CONFIG_get_AL mem d t st(2)]
      free none
    by simp
qed

subsection \<open>Holidays\<close>

text \<open>
  Claim C10: the holiday step of \<open>isDateBlocked\<close> blocks exactly the two date strings
  \<open>2024-12-25\<close> and \<open>2024-01-01\<close>.  For a region of the table a date with one of these
  strings is blocked, and for every other date the result is decided by the other
  steps alone (lead time, workday, whole-day rule, all slots unavailable); the same
  holidays of another year are not blocked by it.
\<close>

theorem holiday_step_exact:
  assumes "form (js ''state'') = JStr state"
    and "map_of STATE_CONFIG state = Some config"
  shows "(List.member HOLIDAY_BLOCKS (formatDate target) \<longleftrightarrow>
            formatDate target = js ''2024-12-25'' \<or> formatDate target = js ''2024-01-01'') \<and>
         (formatDate target = js ''2024-12-25'' \<or> formatDate target = js ''2024-01-01'' \<longrightarrow>
            isDateBlocked appointments blockedRules form today target = Inr True) \<and>
         (formatDate target \<noteq> js ''2024-12-25'' \<and> formatDate target \<noteq> js ''2024-01-01'' \<longrightarrow>
            isDateBlocked appointments blockedRules form today target =
              Inr (diffDays today target < 0 \<or>
                   \<not> List.member (workdays config) (getDay target) \<or>
                   list_ex (\<lambda>r. rule_date r = formatDate target \<and> falsy (rule_time r) \<and>
                     (falsy (rule_state r) \<or> rule_state r = JStr state)) blockedRules \<or>
                   list_all (\<lambda>time. isSlotUnavailable appointments blockedRules
                     (formatDate target) time state) OPERATING_HOURS))"
proof -
  from assms(2) have ne: "state \<noteq> []" by (rule STATE_CONFIG_key_nonempty)
  from assms(2) have own: "STATE_CONFIG_get state = Own config" by (rule STATE_CONFIG_get_key)
  have m: "List.member HOLIDAY_BLOCKS (formatDate target) \<longleftrightarrow>
            formatDate target = js ''2024-12-25'' \<or> formatDate target = js ''2024-01-01''"
    by (auto simp: HOLIDAY_BLOCKS_def)
  have unfolded: "isDateBlocked appointments blockedRules form today target =
      Inr (diffDays today target < 0 \<or>
           \<not> List.member (workdays config) (getDay target) \<or>
           List.member HOLIDAY_BLOCKS (formatDate target) \<or>
           list_ex (\<lambda>r. rule_date r = formatDate target \<and> falsy (rule_time r) \<and>
             (falsy (rule_state r) \<or> rule_state r = JStr state)) blockedRules \<or>
           list_all (\<lambda>time. isSlotUnavailable appointments blockedRules
             (formatDate target) time state) OPERATING_HOURS)"
    using assms(1) ne own by (simp add: isDateBlocked_def Let_def del: List.member_iff)
  show ?thesis
    unfolding unfolded using m by blast
qed

theorem holiday_step_exact_witness:
  "isDateBlocked [] [] (select_state (js ''GA'')) mon_2025_12_22 thu_2025_12_25 = Inr False \<and>
   isDateBlocked [] [] (select_state (js ''GA'')) mon_2024_12_23 wed_2024_12_25 = Inr True"
proof -
  have ga: "select_state (js ''GA'') (js ''state'') = JStr (js ''GA'')"
    by (simp add: select_state_def)
  have slot: "\<not> isSlotUnavailable [] [] (js ''2025-12-25'') (js ''9:00 AM'') (js ''GA'')"
    by (simp add: isSlotUnavailable_configured [OF STATE_CONFIG_get_GA])
  have lead: "\<not> diffDays mon_2025_12_22 thu_2025_12_25 < 0"
    by (simp add: lead_time_blocks_iff mon_2025_12_22_def thu_2025_12_25_def)
  have day: "getDay thu_2025_12_25 = 4" by (simp add: thu_2025_12_25_def)
  show ?thesis
    using holiday_step_exact
        [where form = "select_state (js ''GA'')" and target = thu_2025_12_25
           and appointments = "[]" and blockedRules = "[]" and today = mon_2025_12_22,
         OF ga STATE_CONFIG_get_GA]
      holiday_step_exact
        [where form = "select_state (js ''GA'')" and target = wed_2024_12_25
           and appointments = "[]" and blockedRules = "[]" and today = mon_2024_12_23,
         OF ga STATE_CONFIG_get_GA]
      slot lead day
    by (simp add: formatDate_examples OPERATING_HOURS_def)
qed

section \<open>The block-date editor\<close>

lemma filter_pred_cong: "(\<And>x. P x = Q x) \<Longrightarrow> filter P xs = filter Q xs"
  by (induction xs) simp_all

text \<open>
  Claim C6: when the day is blocked for the active filter, the toggle of the block-date
  editor removes from the working copy exactly the whole-day rules of the date whose
  state equals the filter: with a region selected the rules whose state is that region,
  with the filter \<open>ALL\<close> the rules whose state is \<open>undefined\<close> or \<open>null\<close>.  So with a
  region selected the rules for all states are kept, with \<open>ALL\<close> the rules with a
  state are kept, and no rule is created.
\<close>

theorem unblock_removes_exact_scope:
  assumes "isDayBlocked (formatDate d) (if flt = js ''ALL'' then None else Some flt) temp"
  shows "toggleDateBlockFromCalendar temp flt newId d =
           filter (\<lambda>r. \<not> (rule_date r = formatDate d \<and> falsy (rule_time r) \<and>
                            (if flt = js ''ALL''
                             then rule_state r = JUndefined \<or> rule_state r = JNull
                             else rule_state r = JStr flt))) temp \<and>
         (flt \<noteq> js ''ALL'' \<and> flt \<noteq> [] \<longrightarrow>
            (\<forall>r \<in> set temp. falsy (rule_state r) \<longrightarrow>
               r \<in> set (toggleDateBlockFromCalendar temp flt newId d))) \<and>
         (flt = js ''ALL'' \<longrightarrow>
            (\<forall>r \<in> set temp. truthy (rule_state r) \<longrightarrow>
               r \<in> set (toggleDateBlockFromCalendar temp flt newId d))) \<and>
         set (toggleDateBlockFromCalendar temp flt newId d) \<subseteq> set temp"
proof -
  have eq: "toggleDateBlockFromCalendar temp flt newId d =
           filter (\<lambda>r. \<not> (rule_date r = formatDate d \<and> falsy (rule_time r) \<and>
                            (if flt = js ''ALL''
                             then rule_state r = JUndefined \<or> rule_state r = JNull
                             else rule_state r = JStr flt))) temp"
    using assms
    by (auto simp: toggleDateBlockFromCalendar_def Let_def intro!: filter_pred_cong)
  have keep_global: "flt \<noteq> js ''ALL'' \<and> flt \<noteq> [] \<longrightarrow>
            (\<forall>r \<in> set temp. falsy (rule_state r) \<longrightarrow>
               r \<in> set (toggleDateBlockFromCalendar temp flt newId d))"
    unfolding eq by auto
  have keep_scoped: "flt = js ''ALL'' \<longrightarrow>
            (\<forall>r \<in> set temp. truthy (rule_state r) \<longrightarrow>
               r \<in> set (toggleDateBlockFromCalendar temp flt newId d))"
    unfolding eq by auto
  have sub: "set (toggleDateBlockFromCalendar temp flt newId d) \<subseteq> set temp"
    unfolding eq by auto
  from eq keep_global keep_scoped sub show ?thesis by blast
qed

theorem unblock_removes_exact_scope_witness:
  "toggleDateBlockFromCalendar [global_rule, ga_rule, tn_rule] (js ''GA'') (js ''new'')
     mon_2025_06_02 = [global_rule, tn_rule] \<and>
   toggleDateBlockFromCalendar [global_rule, ga_rule, tn_rule] (js ''ALL'') (js ''new'')
     mon_2025_06_02 = [ga_rule, tn_rule] \<and>
   toggleDateBlockFromCalendar [global_rule] (js ''GA'') (js ''new'')
     mon_2025_06_02 = [global_rule]"
proof -
  have b1: "isDayBlocked (formatDate mon_2025_06_02)
      (if js ''GA'' = js ''ALL'' then None else Some (js ''GA'')) [global_rule, ga_rule, tn_rule]"
    and b2: "isDayBlocked (formatDate mon_2025_06_02)
      (if js ''ALL'' = js ''ALL'' then None else Some (js ''ALL''))
      [global_rule, ga_rule, tn_rule]"
    and b3: "isDayBlocked (formatDate mon_2025_06_02)
      (if js ''GA'' = js ''ALL'' then None else Some (js ''GA'')) [global_rule]"
    by (simp_all add: isDayBlocked_def formatDate_examples global_rule_def ga_rule_def
        tn_rule_def whole_day_rule_def)
  show ?thesis
    using unblock_removes_exact_scope [OF b1, of "js ''new''"]
      unblock_removes_exact_scope [OF b2, of "js ''new''"]
      unblock_removes_exact_scope [OF b3, of "js ''new''"]
    by (simp add: formatDate_examples global_rule_def ga_rule_def tn_rule_def
        whole_day_rule_def)
qed

text \<open>On a day that is not blocked for the filter the toggle adds one whole-day rule.\<close>

lemma toggle_blocks_free_day:
  "\<not> isDayBlocked (formatDate d) (if flt = js ''ALL'' then None else Some flt) temp \<Longrightarrow>
   toggleDateBlockFromCalendar temp flt newId d =
     temp @ [\<lparr>rule_id = newId, rule_date = formatDate d, rule_time = JUndefined,
              rule_state = (if flt = js ''ALL'' then JUndefined else JStr flt),
              rule_reason = JStr (js ''Manual Calendar Block'')\<rparr>]"
  by (simp add: toggleDateBlockFromCalendar_def Let_def)

subsection \<open>Saving the editor\<close>

lemma find_None_rule_id:
  "(find (\<lambda>y. rule_id y = i) ys = None) = (i \<notin> rule_id ` set ys)"
  by (auto simp: find_None_iff)

lemma filter_removed_ids:
  "filter (\<lambda>r. rule_id r \<notin> rule_id ` set (filter (\<lambda>br. rule_id br \<notin> ids) rules)) rules =
     filter (\<lambda>br. rule_id br \<in> ids) rules"
  by (rule filter_cong) auto

lemma filter_none_removed:
  "filter (\<lambda>br. rule_id br \<notin> ids) rules = [] \<Longrightarrow> filter (\<lambda>br. rule_id br \<in> ids) rules = rules"
  by (simp add: filter_empty_conv filter_id_conv)

lemma with_id_without_id: "with_id i (without_id tr) = tr\<lparr>rule_id := i\<rparr>"
  by (simp add: with_id_def without_id_def)

lemma zip_with_id:
  "map (\<lambda>(i, row). with_id i row) (zip ids (map without_id rules)) =
     map (\<lambda>(i, tr). tr\<lparr>rule_id := i\<rparr>) (zip ids rules)"
proof (induction rules arbitrary: ids)
  case Nil
  show ?case by simp
next
  case (Cons a rules)
  show ?case by (cases ids) (simp_all add: Cons with_id_without_id)
qed

text \<open>
  Claim C7: on commit the batch of writes is one delete call with exactly the ids of the
  committed rules whose id is not in the working copy, and one insert call with exactly
  the rules of the working copy whose id is not among the committed ones, each sent with
  its date, time, state and reason and without its (temporary) id; a call with nothing
  to delete or insert is not made.  Applied to a store that holds the committed rules,
  where the server assigns one identifier to each inserted row, the batch leaves the
  committed rules whose id is in the working copy, followed by the added rules under
  the identifiers of the server in place of their temporary ones.  When rules were
  inserted, the local rules become what the store returns, otherwise the working copy.
\<close>

theorem saveBlockModal_batch:
  "let removed = filter (\<lambda>br. rule_id br \<notin> rule_id ` set tempBlockedRules) blockedRules;
       added = filter (\<lambda>tr. rule_id tr \<notin> rule_id ` set blockedRules) tempBlockedRules;
       batch = fst (saveBlockModal blockedRules tempBlockedRules insertData allRules)
   in batch =
        (if removed = [] then [] else [DeleteIn (map rule_id removed)]) @
        (if added = [] then []
         else [Insert (map (\<lambda>tr. \<lparr>row_date = rule_date tr, row_time = rule_time tr,
                                    row_state = rule_state tr, row_reason = rule_reason tr\<rparr>)
                        added)]) \<and>
      (length serverIds = length added \<longrightarrow>
         store_run serverIds batch blockedRules =
           filter (\<lambda>br. rule_id br \<in> rule_id ` set tempBlockedRules) blockedRules @
           map (\<lambda>(i, tr). tr\<lparr>rule_id := i\<rparr>) (zip serverIds added)) \<and>
      snd (saveBlockModal blockedRules tempBlockedRules insertData allRules) =
        (if added = [] then tempBlockedRules
         else (case (insertData, allRules) of
                 (Some data, Some rs) \<Rightarrow> rs
               | _ \<Rightarrow> blockedRules))"
proof -
  define removed where
    "removed = filter (\<lambda>br. rule_id br \<notin> rule_id ` set tempBlockedRules) blockedRules"
  define added where
    "added = filter (\<lambda>tr. rule_id tr \<notin> rule_id ` set blockedRules) tempBlockedRules"
  have a: "filter (\<lambda>tr. find (\<lambda>br. rule_id br = rule_id tr) blockedRules = None)
             tempBlockedRules = added"
    by (simp add: find_None_rule_id added_def)
  have r: "filter (\<lambda>br. find (\<lambda>tr. rule_id tr = rule_id br) tempBlockedRules = None)
             blockedRules = removed"
    by (simp add: find_None_rule_id removed_def)
  have batch: "fst (saveBlockModal blockedRules tempBlockedRules insertData allRules) =
        (if removed = [] then [] else [DeleteIn (map rule_id removed)]) @
        (if added = [] then [] else [Insert (map without_id added)])"
    unfolding saveBlockModal_def a r Let_def by simp
  have rows: "map without_id added =
      map (\<lambda>tr. \<lparr>row_date = rule_date tr, row_time = rule_time tr,
                  row_state = rule_state tr, row_reason = rule_reason tr\<rparr>) added"
    by (simp add: without_id_def)
  have local_rules: "snd (saveBlockModal blockedRules tempBlockedRules insertData allRules) =
        (if added = [] then tempBlockedRules
         else (case (insertData, allRules) of
                 (Some data, Some rs) \<Rightarrow> rs
               | _ \<Rightarrow> blockedRules))"
    unfolding saveBlockModal_def a r Let_def by (simp split: option.splits)
  have del: "filter (\<lambda>r. rule_id r \<notin> rule_id ` set removed) blockedRules =
      filter (\<lambda>br. rule_id br \<in> rule_id ` set tempBlockedRules) blockedRules"
    unfolding removed_def by (rule filter_cong) auto
  have keep: "removed = [] \<Longrightarrow>
      filter (\<lambda>br. rule_id br \<in> rule_id ` set tempBlockedRules) blockedRules = blockedRules"
    unfolding removed_def by (rule filter_none_removed)
  have store: "store_run serverIds
        (fst (saveBlockModal blockedRules tempBlockedRules insertData allRules)) blockedRules =
           filter (\<lambda>br. rule_id br \<in> rule_id ` set tempBlockedRules) blockedRules @
           map (\<lambda>(i, tr). tr\<lparr>rule_id := i\<rparr>) (zip serverIds added)"
    unfolding batch store_run_def
    by (cases "removed = []"; cases "added = []") (simp_all add: del keep zip_with_id)
  from batch rows local_rules store show ?thesis
    unfolding removed_def [symmetric] added_def [symmetric] Let_def by simp
qed

theorem saveBlockModal_batch_witness:
  "fst (saveBlockModal [global_rule, ga_rule] [global_rule, tn_rule] None None) =
     [DeleteIn [js ''a''],
      Insert [\<lparr>row_date = js ''2025-06-02'', row_time = JNull, row_state = JStr (js ''TN''),
               row_reason = JStr (js ''Manual Calendar Block'')\<rparr>]] \<and>
   store_run [js ''srv1'']
     (fst (saveBlockModal [global_rule, ga_rule] [global_rule, tn_rule] None None))
     [global_rule, ga_rule] =
     [global_rule, whole_day_rule (js ''srv1'') (js ''2025-06-02'') (JStr (js ''TN''))]"
  using saveBlockModal_batch [where blockedRules = "[global_rule, ga_rule]"
      and tempBlockedRules = "[global_rule, tn_rule]" and insertData = None
      and allRules = None and serverIds = "[js ''srv1'']"]
  by (simp add: Let_def global_rule_def ga_rule_def tn_rule_def whole_day_rule_def
      store_run_def with_id_def)

section \<open>The single-slot toggle of the grid\<close>

text \<open>
  Claim C9: when the only rule for the current date and the time is one with no state,
  the toggle of an administrator, for any state, deletes that rule (by its id, in the
  store and, the delete succeeding, in the local rules); afterwards the slot is blocked
  for no state at all.
\<close>

theorem toggleBlockTime_deletes_global_rule:
  assumes "g \<in> set blockedRules"
    and "rule_date g = dateStr"
    and "rule_time g = JStr time"
    and "falsy (rule_state g)"
    and "\<forall>r \<in> set blockedRules. rule_date r = dateStr \<and> rule_time r = JStr time \<longrightarrow> r = g"
  shows "toggleBlockTime True blockedRules dateStr False inserted time state =
           ([DeleteEq (rule_id g)], filter (\<lambda>r. rule_id r \<noteq> rule_id g) blockedRules) \<and>
         g \<notin> set (snd (toggleBlockTime True blockedRules dateStr False inserted time state)) \<and>
         (\<forall>s. \<not> isTimeBlocked
                 (snd (toggleBlockTime True blockedRules dateStr False inserted time state))
                 dateStr time s)"
proof -
  let ?P = "\<lambda>r. rule_date r = dateStr \<and> rule_time r = JStr time \<and>
                (falsy (rule_state r) \<or> rule_state r = JStr state)"
  have "find ?P blockedRules \<noteq> None"
    using assms(1-4) by (auto simp: find_None_iff)
  then obtain x where x: "find ?P blockedRules = Some x" by blast
  then have "x \<in> set blockedRules" and "?P x"
    by (auto simp: find_Some_iff)
  with assms(5) have "x = g" by blast
  with x have eq: "toggleBlockTime True blockedRules dateStr False inserted time state =
           ([DeleteEq (rule_id g)], filter (\<lambda>r. rule_id r \<noteq> rule_id g) blockedRules)"
    by (simp add: toggleBlockTime_def)
  have free: "\<forall>s. \<not> isTimeBlocked (filter (\<lambda>r. rule_id r \<noteq> rule_id g) blockedRules)
                      dateStr time s"
    using assms(5) by (auto simp: isTimeBlocked_def list_ex_iff)
  from eq free show ?thesis by simp
qed

theorem toggleBlockTime_deletes_global_rule_witness:
  "isTimeBlocked [global_slot_rule, ga_rule] (js ''2025-06-02'') (js ''9:00 AM'') (js ''TN'') \<and>
   toggleBlockTime True [global_slot_rule, ga_rule] (js ''2025-06-02'') False None
     (js ''9:00 AM'') (js ''GA'') = ([DeleteEq (js ''s'')], [ga_rule]) \<and>
   isTimeBlocked [ga_rule] (js ''2025-06-02'') (js ''9:00 AM'') (js ''TN'') = False"
proof -
  have mem: "global_slot_rule \<in> set [global_slot_rule, ga_rule]" by simp
  have d: "rule_date global_slot_rule = js ''2025-06-02''"
    and t: "rule_time global_slot_rule = JStr (js ''9:00 AM'')"
    and st: "falsy (rule_state global_slot_rule)"
    by (simp_all add: global_slot_rule_def slot_rule_def)
  have only: "\<forall>r \<in> set [global_slot_rule, ga_rule].
      rule_date r = js ''2025-06-02'' \<and> rule_time r = JStr (js ''9:00 AM'') \<longrightarrow>
      r = global_slot_rule"
    by (simp add: ga_rule_def whole_day_rule_def)
  have before: "isTimeBlocked [global_slot_rule, ga_rule] (js ''2025-06-02'') (js ''9:00 AM'')
      (js ''TN'')"
    by (simp add: isTimeBlocked_def global_slot_rule_def slot_rule_def)
  show ?thesis
    using toggleBlockTime_deletes_global_rule [OF mem d t st only, of None "js ''GA''"] before
    by (simp add: global_slot_rule_def slot_rule_def ga_rule_def whole_day_rule_def
        isTimeBlocked_def)
qed

section \<open>The clipboard summary\<close>

text \<open>The loop over the schema appends the texts of the fields that pass the test.\<close>

lemma foldl_append_field:
  "foldl (append_field data) acc schema =
     acc @ concat (map (\<lambda>f. or_empty (prefix f) @ ToString (data (field_id f))
                              @ or_empty (suffix f))
       (filter (\<lambda>f. isFieldVisible f data \<and> truthy (data (field_id f))) schema))"
  by (induction schema arbitrary: acc) (simp_all add: append_field_def)

text \<open>The tests and the pieces of text, in terms of the schema and the data alone.\<close>

lemma isFieldVisible_iff:
  "isFieldVisible f data \<longleftrightarrow>
     (case showWhen f of
        None \<Rightarrow> True
      | Some c \<Rightarrow> (case showValue c of PStr w \<Rightarrow> data (fieldId c) = JStr w | _ \<Rightarrow> False))"
proof (cases "showWhen f")
  case None
  then show ?thesis by (simp add: isFieldVisible_def)
next
  case (Some c)
  then show ?thesis
    by (cases "data (fieldId c)"; cases "showValue c") (auto simp: isFieldVisible_def)
qed

lemma truthy_iff: "truthy v \<longleftrightarrow> (case v of JStr s \<Rightarrow> s \<noteq> [] | _ \<Rightarrow> False)"
  by (cases v) simp_all

lemma ToString_truthy: "truthy v \<Longrightarrow> ToString v = (case v of JStr s \<Rightarrow> s | _ \<Rightarrow> [])"
  by (cases v) simp_all

lemma or_empty_case: "or_empty p = (case p of None \<Rightarrow> [] | Some s \<Rightarrow> s)"
  by (cases p) simp_all

lemma field_texts:
  "concat (map (\<lambda>f. or_empty (prefix f) @ ToString (data (field_id f)) @ or_empty (suffix f))
     (filter (\<lambda>f. isFieldVisible f data \<and> truthy (data (field_id f))) schema)) =
   concat (map (\<lambda>f. (case prefix f of None \<Rightarrow> [] | Some p \<Rightarrow> p) @
                    (case data (field_id f) of JStr v \<Rightarrow> v | _ \<Rightarrow> []) @
                    (case suffix f of None \<Rightarrow> [] | Some q \<Rightarrow> q))
     (filter (\<lambda>f. (case showWhen f of
                     None \<Rightarrow> True
                   | Some c \<Rightarrow> (case showValue c of
                                 PStr w \<Rightarrow> data (fieldId c) = JStr w
                               | _ \<Rightarrow> False)) \<and>
                  (case data (field_id f) of JStr v \<Rightarrow> v \<noteq> [] | _ \<Rightarrow> False)) schema))"
proof -
  let ?P = "\<lambda>f. isFieldVisible f data \<and> truthy (data (field_id f))"
  have texts: "map (\<lambda>f. or_empty (prefix f) @ ToString (data (field_id f))
                          @ or_empty (suffix f)) (filter ?P schema) =
        map (\<lambda>f. (case prefix f of None \<Rightarrow> [] | Some p \<Rightarrow> p) @
                 (case data (field_id f) of JStr v \<Rightarrow> v | _ \<Rightarrow> []) @
                 (case suffix f of None \<Rightarrow> [] | Some q \<Rightarrow> q)) (filter ?P schema)"
    by (rule map_cong) (auto simp: ToString_truthy or_empty_case)
  have fields: "filter ?P schema =
        filter (\<lambda>f. (case showWhen f of
                     None \<Rightarrow> True
                   | Some c \<Rightarrow> (case showValue c of
                                 PStr w \<Rightarrow> data (fieldId c) = JStr w
                               | _ \<Rightarrow> False)) \<and>
                  (case data (field_id f) of JStr v \<Rightarrow> v \<noteq> [] | _ \<Rightarrow> False)) schema"
    by (simp add: isFieldVisible_iff truthy_iff)
  show ?thesis unfolding texts unfolding fields by (rule refl)
qed

text \<open>
  The replacement removes the code points U+1F600 to U+1F64F (128512 to 128591) of
  the text and nothing else.
\<close>

lemma surrogate_bounds:
  "is_high_surrogate h \<longleftrightarrow> 55296 \<le> unat h \<and> unat h \<le> 56319"
  "is_low_surrogate l \<longleftrightarrow> 56320 \<le> unat l \<and> unat l \<le> 57343"
  by (simp_all add: is_high_surrogate_def is_low_surrogate_def word_le_nat_alt)

lemma unat_lt_65536: "unat (h :: 16 word) < 65536"
  using unsigned_less [of h, where 'a = nat] by simp

lemma utf16_decode_pair:
  "is_high_surrogate h \<Longrightarrow> is_low_surrogate l \<Longrightarrow>
     utf16_decode (h # l # rest) = code_point h l # utf16_decode rest"
  by (simp add: surrogate_bounds code_point_def)

lemma utf16_decode_unit:
  "\<not> (is_high_surrogate h \<and> is_low_surrogate l) \<Longrightarrow>
     utf16_decode (h # l # rest) = unat h # utf16_decode (l # rest)"
  by (simp add: surrogate_bounds)

lemma utf16_encode_unit: "utf16_encode (unat h # cps) = h # utf16_encode cps"
  using unat_lt_65536 [of h] by simp

lemma utf16_encode_pair:
  assumes "is_high_surrogate h" and "is_low_surrogate l"
  shows "utf16_encode (code_point h l # cps) = h # l # utf16_encode cps"
proof -
  define a where "a = unat h - 55296"
  define b where "b = unat l - 56320"
  from assms have bnd: "55296 \<le> unat h" "56320 \<le> unat l" "unat l \<le> 57343"
    by (simp_all add: surrogate_bounds)
  then have ab: "b < 1024" "55296 + a = unat h" "56320 + b = unat l"
    unfolding a_def b_def by linarith+
  have cp: "code_point h l = 65536 + (1024 * a + b)"
    by (simp add: code_point_def a_def b_def)
  have d: "(1024 * a + b) div 1024 = a" using ab(1) by simp
  have m: "(1024 * a + b) mod 1024 = b" using ab(1) by simp
  have hi: "(of_nat (55296 + a) :: 16 word) = h" unfolding ab(2) by simp
  have lo: "(of_nat (56320 + b) :: 16 word) = l" unfolding ab(3) by simp
  have "utf16_encode (code_point h l # cps) =
      [of_nat (55296 + (1024 * a + b) div 1024), of_nat (56320 + (1024 * a + b) mod 1024)]
        @ utf16_encode cps"
    unfolding cp by simp
  then show ?thesis unfolding d m hi lo by simp
qed

lemma unit_not_emoticon: "\<not> (128512 \<le> unat (h :: 16 word) \<and> unat h \<le> 128591)"
  using unat_lt_65536 [of h] by simp

lemma replace_emoticons_code_points:
  "replace_emoticons s =
     utf16_encode (filter (\<lambda>cp. \<not> (128512 \<le> cp \<and> cp \<le> 128591)) (utf16_decode s))"
proof (induction s rule: replace_emoticons.induct)
  case (1 h l rest)
  show ?case
  proof (cases "is_high_surrogate h \<and> is_low_surrogate l")
    case True
    then have hl: "is_high_surrogate h" "is_low_surrogate l" by simp_all
    show ?thesis
    proof (cases "128512 \<le> code_point h l \<and> code_point h l \<le> 128591")
      case in_range: True
      from "1.IH"(1) [OF True in_range] True in_range show ?thesis
        by (simp add: utf16_decode_pair [OF hl] del: utf16_decode.simps utf16_encode.simps)
    next
      case False
      from "1.IH"(2) [OF True False] True False show ?thesis
        by (simp add: utf16_decode_pair [OF hl] utf16_encode_pair [OF hl]
            del: utf16_decode.simps utf16_encode.simps)
    qed
  next
    case False
    have lhs: "replace_emoticons (h # l # rest) = h # replace_emoticons (l # rest)"
      using False by auto
    have "utf16_encode (filter (\<lambda>cp. \<not> (128512 \<le> cp \<and> cp \<le> 128591))
            (utf16_decode (h # l # rest))) =
          utf16_encode (unat h # filter (\<lambda>cp. \<not> (128512 \<le> cp \<and> cp \<le> 128591))
            (utf16_decode (l # rest)))"
      using unit_not_emoticon [of h]
      by (simp only: utf16_decode_unit [OF False] filter.simps if_True simp_thms)
    also have "\<dots> = h # utf16_encode (filter (\<lambda>cp. \<not> (128512 \<le> cp \<and> cp \<le> 128591))
            (utf16_decode (l # rest)))"
      by (rule utf16_encode_unit)
    finally show ?thesis
      unfolding lhs "1.IH"(3) [OF False] by simp
  qed
next
  case (2 h)
  from unit_not_emoticon [of h] show ?case
    by (simp add: utf16_encode_unit del: utf16_encode.simps(2))
next
  case 3
  show ?case by simp
qed

text \<open>
  Claim C8 says that the text is the concatenation of prefix, value and suffix of the
  visible fields with a non-empty value, then the confirmation line, with emoji code
  points stripped.  The replacement removes the code points U+1F600 to U+1F64F only.
  With a roof of unknown condition and notes that consist of U+1F680 (a rocket, an
  emoji outside that range) the damage description is left out, as it is not visible,
  and the rocket stays in the text.
\<close>

theorem generateClipboardText_keeps_rocket:
  "generateClipboardText unknown_form [condition_field, damage_field, notes_field] =
     js ''Condition: Unknown\<newline>Notes: '' @ [0xD83D, 0xDE80] @
     js ''\<newline>Did you confirm the physical address?: Yes''"
  by (simp add: generateClipboardText_def append_field_def isFieldVisible_def
      condition_field_def damage_field_def notes_field_def unknown_form_def js_def
      is_high_surrogate_def is_low_surrogate_def code_point_def)

text \<open>
  Claim C8 as amended: the text is the concatenation, in schema order, of prefix, value
  and suffix (an absent prefix or suffix counting as empty) of exactly the fields that
  are visible, that is, have no \<open>showWhen\<close> or have one whose field holds the string
  \<open>showWhen.value\<close> in the data, and whose own value is a string that is not empty;
  then the line \<open>Did you confirm the physical address?: Yes\<close>; with the code points
  U+1F600 to U+1F64F removed from the whole.  It is a function of the data and the
  schema, defined on all of them.
\<close>

theorem generateClipboardText_concat:
  "generateClipboardText data schema =
     utf16_encode (filter (\<lambda>cp. \<not> (128512 \<le> cp \<and> cp \<le> 128591))
       (utf16_decode
          (concat (map (\<lambda>f. (case prefix f of None \<Rightarrow> [] | Some p \<Rightarrow> p) @
                           (case data (field_id f) of JStr v \<Rightarrow> v | _ \<Rightarrow> []) @
                           (case suffix f of None \<Rightarrow> [] | Some q \<Rightarrow> q))
             (filter (\<lambda>f. (case showWhen f of
                             None \<Rightarrow> True
                           | Some c \<Rightarrow> (case showValue c of
                                         PStr w \<Rightarrow> data (fieldId c) = JStr w
                                       | _ \<Rightarrow> False)) \<and>
                          (case data (field_id f) of JStr v \<Rightarrow> v \<noteq> [] | _ \<Rightarrow> False))
                schema))
           @ js ''Did you confirm the physical address?: Yes'')))"
  unfolding generateClipboardText_def Let_def foldl_append_field replace_emoticons_code_points
    field_texts
  by simp

theorem generateClipboardText_concat_witness:
  "generateClipboardText damaged_form [condition_field, damage_field, notes_field] =
     js ''Condition: Damaged\<newline>Damage: hail \<newline>Did you confirm the physical address?: Yes'' \<and>
   generateClipboardText unknown_form [damage_field, condition_field] =
     js ''Condition: Unknown\<newline>Did you confirm the physical address?: Yes''"
  unfolding generateClipboardText_concat
  by (simp add: condition_field_def damage_field_def notes_field_def damaged_form_def
      unknown_form_def js_def)

end
